theory Spec2Isabelle
  imports Complex_Main
begin

section \<open>Values of the host language\<close>

text \<open>
  The library wraps one dynamically typed value. The value space below is that of
  data: the primitive values, arrays and plain objects. Numbers are exact rationals
  (no rounding, no NaN, no infinities), text is a \<open>string\<close> of 8-bit characters,
  arrays are dense lists without further properties, and a plain object is the list of
  its own enumerable properties in the order in which \<^verbatim>\<open>for ... in\<close> visits them. A
  symbol is opaque and carries only a tag. A function is not a value of this space:
  the functions that the methods call are given by their behaviour.
\<close>

datatype jsval =
    JUndefined
  | JNull
  | JBool bool
  | JNum rat
  | JBigInt int
  | JStr string
  | JSymbol nat
  | JArr "jsval list"
  | JObj "(string \<times> jsval) list"

datatype error =
    SyntaxError
  | TypeError
  | ReferenceError
  | ObjockeyError string

text \<open>A callback receives three arguments and is a pure, total function.\<close>

type_synonym callback = "jsval \<Rightarrow> jsval \<Rightarrow> jsval \<Rightarrow> jsval"

fun typeof :: "jsval \<Rightarrow> string" where
  "typeof JUndefined = ''undefined''"
| "typeof JNull = ''object''"
| "typeof (JBool b) = ''boolean''"
| "typeof (JNum n) = ''number''"
| "typeof (JBigInt n) = ''bigint''"
| "typeof (JStr s) = ''string''"
| "typeof (JSymbol n) = ''symbol''"
| "typeof (JArr xs) = ''object''"
| "typeof (JObj ms) = ''object''"

text \<open>Truthiness, as \<^verbatim>\<open>if (v)\<close>, \<^verbatim>\<open>v || w\<close> and \<^verbatim>\<open>v && w\<close> test it.\<close>

fun truthy :: "jsval \<Rightarrow> bool" where
  "truthy JUndefined = False"
| "truthy JNull = False"
| "truthy (JBool b) = b"
| "truthy (JNum n) = (n \<noteq> 0)"
| "truthy (JBigInt n) = (n \<noteq> 0)"
| "truthy (JStr s) = (s \<noteq> [])"
| "truthy (JSymbol n) = True"
| "truthy (JArr xs) = True"
| "truthy (JObj ms) = True"

text \<open>\<^verbatim>\<open>Array.isArray(v)\<close> and \<^verbatim>\<open>v instanceof Object\<close>.\<close>

fun Array_isArray :: "jsval \<Rightarrow> bool" where
  "Array_isArray (JArr xs) = True"
| "Array_isArray v = False"

fun instanceof_Object :: "jsval \<Rightarrow> bool" where
  "instanceof_Object (JArr xs) = True"
| "instanceof_Object (JObj ms) = True"
| "instanceof_Object v = False"

subsection \<open>Decimal digits\<close>

definition is_digit :: "char \<Rightarrow> bool" where
  "is_digit c = (c \<in> set ''0123456789'')"

definition digit_val :: "char \<Rightarrow> int" where
  "digit_val c = of_char c - 48"

definition digit_char :: "nat \<Rightarrow> char" where
  "digit_char d = char_of (48 + d)"

definition digits_val :: "string \<Rightarrow> int" where
  "digits_val ds = foldl (\<lambda>a c. 10 * a + digit_val c) 0 ds"

function show_nat :: "nat \<Rightarrow> string" where
  "show_nat n = (if n < 10 then [digit_char n] else show_nat (n div 10) @ [digit_char (n mod 10)])"
  by pat_completeness auto
termination
  by (relation "measure id") auto

declare show_nat.simps [simp del]

subsection \<open>Own properties of a plain object\<close>

text \<open>
  A property key is an array index when it is the canonical decimal form of an integer
  below \<open>2^32 - 1\<close>. An ordinary object lists its array-index keys first, in ascending
  numeric order, and then its other keys in the order of their creation.
\<close>

definition is_array_index :: "string \<Rightarrow> bool" where
  "is_array_index k =
     (k \<noteq> [] \<and> list_all is_digit k \<and> (k = ''0'' \<or> hd k \<noteq> CHR ''0'')
      \<and> digits_val k < 4294967295)"

fun obj_get :: "(string \<times> jsval) list \<Rightarrow> string \<Rightarrow> jsval" where
  "obj_get [] k = JUndefined"
| "obj_get ((k', v) # ms) k = (if k' = k then v else obj_get ms k)"

fun obj_has :: "(string \<times> jsval) list \<Rightarrow> string \<Rightarrow> bool" where
  "obj_has [] k = False"
| "obj_has ((k', v) # ms) k = (k' = k \<or> obj_has ms k)"

fun obj_update :: "string \<Rightarrow> jsval \<Rightarrow> (string \<times> jsval) list \<Rightarrow> (string \<times> jsval) list" where
  "obj_update k v [] = []"
| "obj_update k v ((k', v') # ms) =
     (if k' = k then (k, v) # ms else (k', v') # obj_update k v ms)"

fun obj_insert_index :: "string \<Rightarrow> jsval \<Rightarrow> (string \<times> jsval) list \<Rightarrow> (string \<times> jsval) list" where
  "obj_insert_index k v [] = [(k, v)]"
| "obj_insert_index k v ((k', v') # ms) =
     (if is_array_index k' \<and> digits_val k' < digits_val k
      then (k', v') # obj_insert_index k v ms
      else (k, v) # (k', v') # ms)"

text \<open>Writing a data property: an existing key keeps its place, a new key is created.\<close>

definition obj_put :: "string \<Rightarrow> jsval \<Rightarrow> (string \<times> jsval) list \<Rightarrow> (string \<times> jsval) list" where
  "obj_put k v ms =
     (if obj_has ms k then obj_update k v ms
      else if is_array_index k then obj_insert_index k v ms
      else ms @ [(k, v)])"

text \<open>
  The own enumerable string-keyed properties of any value, in the order of
  \<^verbatim>\<open>for (let key in v)\<close>; this is also what the spread \<^verbatim>\<open>{...v}\<close> copies. An array has
  its indices, a string its character positions, the other primitives have none.
\<close>

fun own_properties :: "jsval \<Rightarrow> (string \<times> jsval) list" where
  "own_properties (JObj ms) = ms"
| "own_properties (JArr xs) = zip (map show_nat [0..<length xs]) xs"
| "own_properties (JStr s) = zip (map show_nat [0..<length s]) (map (\<lambda>c. JStr [c]) s)"
| "own_properties v = []"

text \<open>\<^verbatim>\<open>{...target, ...source}\<close>, given the properties already copied from the target.\<close>

definition spread_into :: "(string \<times> jsval) list \<Rightarrow> jsval \<Rightarrow> (string \<times> jsval) list" where
  "spread_into target source = foldl (\<lambda>acc (k, v). obj_put k v acc) target (own_properties source)"

section \<open>The host's JSON.parse\<close>

text \<open>
  The library calls the parser of the host. In the model of the library the parser is
  a parameter of the methods that call it, so that what is proved of a method for every
  parser holds of the host's. This section gives one parser in full, \<open>JSON_parse\<close>, for
  the evaluation of concrete calls. It follows the JSON grammar. It keeps every digit
  of a number literal, where the host rounds the literal to the nearest double, and it
  rejects a \<^verbatim>\<open>\uXXXX\<close> escape above \<open>00FF\<close>, which the host accepts: on a text with such a
  literal or such an escape it is not the host's parser.
\<close>

type_synonym json_parser = "jsval \<Rightarrow> error + jsval"

subsection \<open>Tokens\<close>

datatype token =
    TLBrace | TRBrace | TLBrack | TRBrack | TColon | TComma
  | TString string | TNumber rat | TTrue | TFalse | TNull

definition is_ws :: "char \<Rightarrow> bool" where
  "is_ws c = (c = CHR '' '' \<or> c = CHR 0x09 \<or> c = CHR 0x0A \<or> c = CHR 0x0D)"

definition is_hex :: "char \<Rightarrow> bool" where
  "is_hex c = (c \<in> set ''0123456789abcdefABCDEF'')"

definition hex_val :: "char \<Rightarrow> nat" where
  "hex_val c =
     (if is_digit c then of_char c - 48
      else if c \<in> set ''abcdef'' then of_char c - 87
      else of_char c - 55)"

text \<open>The single-character escapes of a JSON string.\<close>

definition unescape :: "char \<Rightarrow> char option" where
  "unescape e =
     (if e = CHR 0x22 then Some (CHR 0x22)
      else if e = CHR 0x5C then Some (CHR 0x5C)
      else if e = CHR ''/'' then Some (CHR ''/'')
      else if e = CHR ''b'' then Some (CHR 0x08)
      else if e = CHR ''f'' then Some (CHR 0x0C)
      else if e = CHR ''n'' then Some (CHR 0x0A)
      else if e = CHR ''r'' then Some (CHR 0x0D)
      else if e = CHR ''t'' then Some (CHR 0x09)
      else None)"

text \<open>
  The body of a string literal, after its opening quote: the text up to the closing
  quote and the input after it. A \<^verbatim>\<open>\uXXXX\<close> escape above \<open>00FF\<close> names a character
  outside the 8-bit alphabet of \<open>string\<close> and is rejected here.
\<close>

fun lex_string :: "string \<Rightarrow> string \<Rightarrow> (string \<times> string) option" where
  "lex_string [] acc = None"
| "lex_string (c # cs) acc =
     (if c = CHR 0x22 then Some (rev acc, cs)
      else if c = CHR 0x5C then
        (case cs of
           [] \<Rightarrow> None
         | e # cs' \<Rightarrow>
             if e = CHR ''u'' then
               (case cs' of
                  h1 # h2 # h3 # h4 # cs'' \<Rightarrow>
                    if is_hex h1 \<and> is_hex h2 \<and> is_hex h3 \<and> is_hex h4
                       \<and> hex_val h1 = 0 \<and> hex_val h2 = 0
                    then lex_string cs'' (char_of (16 * hex_val h3 + hex_val h4) # acc)
                    else None
                | _ \<Rightarrow> None)
             else
               (case unescape e of
                  None \<Rightarrow> None
                | Some ch \<Rightarrow> lex_string cs' (ch # acc)))
      else if (of_char c :: nat) < 32 then None
      else lex_string cs (c # acc))"

text \<open>
  A number literal: \<^verbatim>\<open>-? (0 | [1-9][0-9]*) (. [0-9]+)? ([eE] [+-]? [0-9]+)?\<close>.
  \<open>lex_exponent\<close> reads what follows the fraction, \<open>lex_fraction\<close> what follows the
  integer part; each returns the factor or the increment it denotes.
\<close>

definition is_numchar :: "char \<Rightarrow> bool" where
  "is_numchar c = (c \<in> set ''+-.0123456789eE'')"

definition lex_exponent :: "string \<Rightarrow> rat option" where
  "lex_exponent cs =
     (case cs of
        [] \<Rightarrow> Some 1
      | e # ds \<Rightarrow>
          if e = CHR ''e'' \<or> e = CHR ''E'' then
            (case ds of
               [] \<Rightarrow> None
             | s # ds' \<Rightarrow>
                 if s = CHR ''-'' then
                   (if ds' \<noteq> [] \<and> list_all is_digit ds' then Some (1 / 10 ^ nat (digits_val ds')) else None)
                 else if s = CHR ''+'' then
                   (if ds' \<noteq> [] \<and> list_all is_digit ds' then Some (10 ^ nat (digits_val ds')) else None)
                 else
                   (if list_all is_digit ds then Some (10 ^ nat (digits_val ds)) else None))
          else None)"

definition lex_fraction :: "string \<Rightarrow> (rat \<times> string) option" where
  "lex_fraction cs =
     (case cs of
        [] \<Rightarrow> Some (0, [])
      | d # fs \<Rightarrow>
          if d = CHR ''.'' then
            (let ds = takeWhile is_digit fs
             in if ds = [] then None
                else Some (of_int (digits_val ds) / 10 ^ length ds, dropWhile is_digit fs))
          else Some (0, cs))"

definition lex_unsigned :: "string \<Rightarrow> rat option" where
  "lex_unsigned cs =
     (let ds = takeWhile is_digit cs
      in if ds = [] \<or> (length ds > 1 \<and> hd ds = CHR ''0'') then None
         else
           (case lex_fraction (dropWhile is_digit cs) of
              None \<Rightarrow> None
            | Some (f, rest) \<Rightarrow>
                (case lex_exponent rest of
                   None \<Rightarrow> None
                 | Some e \<Rightarrow> Some ((of_int (digits_val ds) + f) * e))))"

definition lex_number :: "string \<Rightarrow> rat option" where
  "lex_number cs =
     (case cs of
        [] \<Rightarrow> None
      | c # cs' \<Rightarrow>
          if c = CHR ''-'' then map_option uminus (lex_unsigned cs') else lex_unsigned cs)"

text \<open>
  A number extends over the longest run of characters that can occur in a number; a
  valid number is never directly followed by one of them in a well-formed text.
\<close>

function tokenize :: "string \<Rightarrow> token list option" where
  "tokenize [] = Some []"
| "tokenize (c # cs) =
     (if is_ws c then tokenize cs
      else if c = CHR ''{'' then map_option (Cons TLBrace) (tokenize cs)
      else if c = CHR ''}'' then map_option (Cons TRBrace) (tokenize cs)
      else if c = CHR ''['' then map_option (Cons TLBrack) (tokenize cs)
      else if c = CHR '']'' then map_option (Cons TRBrack) (tokenize cs)
      else if c = CHR '':'' then map_option (Cons TColon) (tokenize cs)
      else if c = CHR '','' then map_option (Cons TComma) (tokenize cs)
      else if c = CHR 0x22 then
        (case lex_string cs [] of
           None \<Rightarrow> None
         | Some (s, rest) \<Rightarrow> map_option (Cons (TString s)) (tokenize rest))
      else if c = CHR ''-'' \<or> is_digit c then
        (case lex_number (c # takeWhile is_numchar cs) of
           None \<Rightarrow> None
         | Some n \<Rightarrow> map_option (Cons (TNumber n)) (tokenize (dropWhile is_numchar cs)))
      else if take 4 (c # cs) = ''true'' then map_option (Cons TTrue) (tokenize (drop 3 cs))
      else if take 5 (c # cs) = ''false'' then map_option (Cons TFalse) (tokenize (drop 4 cs))
      else if take 4 (c # cs) = ''null'' then map_option (Cons TNull) (tokenize (drop 3 cs))
      else None)"
  by pat_completeness auto


subsection \<open>From tokens to a value\<close>

text \<open>
  The token list is read once, left to right, against a stack of the containers still
  open. \<open>FArr\<close> holds the elements read so far, \<open>FObj\<close> the members read so far,
  and \<open>FKey\<close> in addition the key whose value is awaited.
\<close>

datatype frame =
    FArr "jsval list"
  | FObj "(string \<times> jsval) list"
  | FKey "(string \<times> jsval) list" string

datatype expect =
    EValue
  | EValueOrEnd
  | EKeyOrEnd
  | EKey
  | EColon
  | EAfter jsval

definition start_value :: "frame list \<Rightarrow> token \<Rightarrow> (expect \<times> frame list) option" where
  "start_value st t =
     (case t of
        TString s \<Rightarrow> Some (EAfter (JStr s), st)
      | TNumber n \<Rightarrow> Some (EAfter (JNum n), st)
      | TTrue \<Rightarrow> Some (EAfter (JBool True), st)
      | TFalse \<Rightarrow> Some (EAfter (JBool False), st)
      | TNull \<Rightarrow> Some (EAfter JNull, st)
      | TLBrack \<Rightarrow> Some (EValueOrEnd, FArr [] # st)
      | TLBrace \<Rightarrow> Some (EKeyOrEnd, FObj [] # st)
      | _ \<Rightarrow> None)"

definition start_key :: "frame list \<Rightarrow> token \<Rightarrow> (expect \<times> frame list) option" where
  "start_key st t =
     (case (t, st) of
        (TString k, FObj ms # st') \<Rightarrow> Some (EColon, FKey ms k # st')
      | _ \<Rightarrow> None)"

definition after_value :: "jsval \<Rightarrow> frame list \<Rightarrow> token \<Rightarrow> (expect \<times> frame list) option" where
  "after_value v st t =
     (case st of
        FArr xs # st' \<Rightarrow>
          (if t = TComma then Some (EValue, FArr (xs @ [v]) # st')
           else if t = TRBrack then Some (EAfter (JArr (xs @ [v])), st')
           else None)
      | FKey ms k # st' \<Rightarrow>
          (if t = TComma then Some (EKey, FObj (obj_put k v ms) # st')
           else if t = TRBrace then Some (EAfter (JObj (obj_put k v ms)), st')
           else None)
      | _ \<Rightarrow> None)"

fun parse_step :: "expect \<Rightarrow> frame list \<Rightarrow> token \<Rightarrow> (expect \<times> frame list) option" where
  "parse_step EValue st t = start_value st t"
| "parse_step EValueOrEnd st t =
     (if t = TRBrack then (case st of FArr [] # st' \<Rightarrow> Some (EAfter (JArr []), st') | _ \<Rightarrow> None)
      else start_value st t)"
| "parse_step EKeyOrEnd st t =
     (if t = TRBrace then (case st of FObj [] # st' \<Rightarrow> Some (EAfter (JObj []), st') | _ \<Rightarrow> None)
      else start_key st t)"
| "parse_step EKey st t = start_key st t"
| "parse_step EColon st t = (if t = TColon then Some (EValue, st) else None)"
| "parse_step (EAfter v) st t = after_value v st t"

fun parse_tokens :: "expect \<Rightarrow> frame list \<Rightarrow> token list \<Rightarrow> jsval option" where
  "parse_tokens e st [] = (case (e, st) of (EAfter v, []) \<Rightarrow> Some v | _ \<Rightarrow> None)"
| "parse_tokens e st (t # ts) =
     (case parse_step e st t of
        None \<Rightarrow> None
      | Some (e', st') \<Rightarrow> parse_tokens e' st' ts)"

text \<open>\<^verbatim>\<open>JSON.parse\<close> on text: the value, or a \<^verbatim>\<open>SyntaxError\<close>.\<close>

definition json_parse :: "string \<Rightarrow> error + jsval" where
  "json_parse s =
     (case tokenize s of
        None \<Rightarrow> Inl SyntaxError
      | Some ts \<Rightarrow>
          (case parse_tokens EValue [] ts of
             None \<Rightarrow> Inl SyntaxError
           | Some v \<Rightarrow> Inr v))"

subsection \<open>Conversion of the argument to text\<close>

text \<open>
  \<^verbatim>\<open>JSON.parse\<close> first converts its argument to a string. A number prints its integer
  part and, when it has one, its fraction (in full when the fraction terminates); an
  array joins the texts of its elements with commas, \<^verbatim>\<open>null\<close> and \<^verbatim>\<open>undefined\<close>
  elements giving the empty text; a plain object gives \<^verbatim>\<open>[object Object]\<close>, unless an
  own property hides the inherited \<^verbatim>\<open>toString\<close>: no value of the model is callable, and
  the conversion then fails; a symbol cannot be converted.
\<close>

fun frac_digits :: "nat \<Rightarrow> nat \<Rightarrow> nat \<Rightarrow> string" where
  "frac_digits 0 r q = []"
| "frac_digits (Suc n) r q =
     (if r = 0 then [] else digit_char (10 * r div q) # frac_digits n (10 * r mod q) q)"

definition show_number :: "rat \<Rightarrow> string" where
  "show_number x =
     (let (p, q) = quotient_of x;
          a = nat \<bar>p\<bar>; d = nat q;
          fs = frac_digits d (a mod d) d
      in (if p < 0 then ''-'' else []) @ show_nat (a div d) @ (if fs = [] then [] else CHR ''.'' # fs))"

fun to_string :: "jsval \<Rightarrow> error + string"
  and join_elements :: "jsval list \<Rightarrow> error + string" where
  "to_string JUndefined = Inr ''undefined''"
| "to_string JNull = Inr ''null''"
| "to_string (JBool b) = Inr (if b then ''true'' else ''false'')"
| "to_string (JNum n) = Inr (show_number n)"
| "to_string (JBigInt n) = Inr ((if n < 0 then ''-'' else []) @ show_nat (nat \<bar>n\<bar>))"
| "to_string (JStr s) = Inr s"
| "to_string (JSymbol n) = Inl TypeError"
| "to_string (JArr xs) = join_elements xs"
| "to_string (JObj ms) = (if obj_has ms ''toString'' then Inl TypeError else Inr ''[object Object]'')"
| "join_elements [] = Inr []"
| "join_elements (x # xs) =
     (case (if x = JNull \<or> x = JUndefined then Inr [] else to_string x) of
        Inl e \<Rightarrow> Inl e
      | Inr s \<Rightarrow>
          (if xs = [] then Inr s
           else (case join_elements xs of Inl e \<Rightarrow> Inl e | Inr r \<Rightarrow> Inr (s @ '','' @ r))))"

text \<open>\<^verbatim>\<open>JSON.parse(v)\<close> for an argument of any type.\<close>

definition JSON_parse :: json_parser where
  "JSON_parse v = (case to_string v of Inl e \<Rightarrow> Inl e | Inr s \<Rightarrow> json_parse s)"

section \<open>The wrapper object\<close>

text \<open>
  An \<^verbatim>\<open>ObjockeyObject\<close> has two private fields. A field that was never assigned holds
  \<^verbatim>\<open>undefined\<close>. A method takes the object and returns what the call produced together
  with the object afterwards: a value, the object itself (\<^verbatim>\<open>return this\<close>), or the
  error it threw.
\<close>

datatype sink = ConsoleLog | UserSink nat

record ObjockeyObject =
  print_output_using :: sink
  internal :: jsval

datatype ret = Returns jsval | ReturnsThis | Throws error

definition isArray :: "ObjockeyObject \<Rightarrow> bool" where
  "isArray this = (if Array_isArray (internal this) then True else False)"

definition isObject :: "ObjockeyObject \<Rightarrow> bool" where
  "isObject this =
     (if typeof (internal this) = ''object'' \<and> internal this \<noteq> JNull then True else False)"

text \<open>The values that \<^verbatim>\<open>for (let val of a)\<close> and the spread \<^verbatim>\<open>[...a]\<close> take from an array.\<close>

fun for_of :: "jsval \<Rightarrow> jsval list" where
  "for_of (JArr xs) = xs"
| "for_of v = []"

subsection \<open>Construction and set\<close>

text \<open>The first argument of a method that parses is the host's \<^verbatim>\<open>JSON.parse\<close>.\<close>

definition constructor :: "json_parser \<Rightarrow> jsval \<Rightarrow> error + ObjockeyObject" where
  "constructor parse source =
     (let this = \<lparr>print_output_using = ConsoleLog, internal = JUndefined\<rparr>
      in if Array_isArray source \<or> instanceof_Object source then Inr this
         else if source = JStr [] then Inr this
         else
           (case parse source of
              Inr v \<Rightarrow> Inr (this\<lparr>internal := v\<rparr>)
            | Inl err \<Rightarrow> if err = SyntaxError then Inl err else Inr this))"

definition set_method :: "json_parser \<Rightarrow> jsval \<Rightarrow> ObjockeyObject \<Rightarrow> ret \<times> ObjockeyObject" where
  "set_method parse buffer this =
     (if typeof buffer = ''string'' then
        (case parse buffer of
           Inl err \<Rightarrow> (Throws err, this)
         | Inr newInternal \<Rightarrow> (ReturnsThis, this\<lparr>internal := newInternal\<rparr>))
      else if (Array_isArray buffer \<or> typeof buffer = ''object'') \<and> buffer \<noteq> JNull then
        (ReturnsThis, this\<lparr>internal := buffer\<rparr>)
      else
        (Throws (ObjockeyError
           ([CHR 0x22] @ ''buffer'' @ [CHR 0x22] @ '' must be of type string, object, or array.'')),
         this))"

subsection \<open>push and replace\<close>

definition push_message :: "jsval \<Rightarrow> jsval \<Rightarrow> string" where
  "push_message buffer buf =
     ''Cannot push data of type '' @ typeof buffer @ [CHR 0x0A] @ replicate 16 (CHR '' '')
     @ ''to an internal buffer of type '' @ typeof buf"

definition push :: "jsval \<Rightarrow> ObjockeyObject \<Rightarrow> ret \<times> ObjockeyObject" where
  "push buffer this =
     (if Array_isArray buffer \<and> isArray this then
        (ReturnsThis, this\<lparr>internal := JArr (for_of (internal this) @ for_of buffer)\<rparr>)
      else if (truthy buffer \<and> typeof buffer = ''object'') \<and> typeof (internal this) = ''object'' then
        (ReturnsThis,
         this\<lparr>internal := JObj (spread_into (spread_into [] (internal this)) buffer)\<rparr>)
      else if isArray this then
        (ReturnsThis, this\<lparr>internal := JArr (for_of (internal this) @ [buffer])\<rparr>)
      else if truthy buffer \<and> typeof buffer \<noteq> typeof (internal this) then
        (Throws (ObjockeyError (push_message buffer (internal this))), this)
      else (ReturnsThis, this))"





subsection \<open>Searching\<close>

text \<open>
  The two loops that collect matches: over an array with its running index \<open>i\<close>, and
  over the keys of anything else. The callback's third argument is the buffer itself.
\<close>

fun array_indexes :: "callback \<Rightarrow> jsval \<Rightarrow> jsval list \<Rightarrow> nat \<Rightarrow> jsval list \<Rightarrow> jsval list" where
  "array_indexes callback buf [] i indexes = indexes"
| "array_indexes callback buf (val # rest) i indexes =
     array_indexes callback buf rest (i + 1)
       (if truthy (callback val (JNum (of_nat i)) buf) then indexes @ [JNum (of_nat i)] else indexes)"

fun key_indexes :: "callback \<Rightarrow> jsval \<Rightarrow> (string \<times> jsval) list \<Rightarrow> jsval list \<Rightarrow> jsval list" where
  "key_indexes callback buf [] indexes = indexes"
| "key_indexes callback buf ((key, v) # rest) indexes =
     key_indexes callback buf rest
       (if truthy (callback (JStr key) v buf) then indexes @ [JStr key] else indexes)"

definition findAllIndexes :: "callback \<Rightarrow> ObjockeyObject \<Rightarrow> ret \<times> ObjockeyObject" where
  "findAllIndexes callback this =
     (let indexes =
        (if Array_isArray (internal this) then
           array_indexes callback (internal this) (for_of (internal this)) 0 []
         else if typeof (internal this) = ''object'' then
           key_indexes callback (internal this) (own_properties (internal this)) []
         else [])
      in (Returns (if length indexes > 0 then JArr indexes else JNull), this))"

text \<open>
  The argument of \<^verbatim>\<open>findIndexes2D\<close>: a value that is not an array, or an array whose
  elements are functions, given by their behaviour, or values that are not functions.
\<close>

datatype element = Fn callback | NotFn jsval

datatype callbacks_arg = NonArr jsval | Arr "element list"

definition callbacks_message :: string where
  "callbacks_message = [CHR 0x22] @ ''callbacks'' @ [CHR 0x22] @ '' must be an array of functions.''"

fun findIndexes2D_loop :: "ObjockeyObject \<Rightarrow> element list \<Rightarrow> jsval list \<Rightarrow> error + jsval list" where
  "findIndexes2D_loop this [] indexes = Inr indexes"
| "findIndexes2D_loop this (NotFn v # rest) indexes = Inl (ObjockeyError callbacks_message)"
| "findIndexes2D_loop this (Fn callback # rest) indexes =
     (if isArray this then
        (let set = array_indexes callback (internal this) (for_of (internal this)) 0 []
         in findIndexes2D_loop this rest (indexes @ [if length set > 0 then JArr set else JNull]))
      else if typeof (internal this) = ''object'' then
        (let set = key_indexes callback (internal this) (own_properties (internal this)) []
         in findIndexes2D_loop this rest indexes)
      else findIndexes2D_loop this rest indexes)"

definition findIndexes2D :: "callbacks_arg \<Rightarrow> ObjockeyObject \<Rightarrow> ret \<times> ObjockeyObject" where
  "findIndexes2D callbacks this =
     (case callbacks of
        NonArr v \<Rightarrow> (Throws (ObjockeyError callbacks_message), this)
      | Arr cbs \<Rightarrow>
          (case findIndexes2D_loop this cbs [] of
             Inl err \<Rightarrow> (Throws err, this)
           | Inr indexes \<Rightarrow> (Returns (JArr indexes), this)))"

subsection \<open>Arithmetic\<close>

text \<open>
  \<^verbatim>\<open>calculation += addition\<close>, reached only when \<open>addition\<close> is a number or a bigint;
  \<open>calculation\<close> is a number, and adding a bigint to a number throws a
  \<^verbatim>\<open>TypeError\<close>.
\<close>

fun plus_assign :: "rat \<Rightarrow> jsval \<Rightarrow> error + rat" where
  "plus_assign calculation (JNum n) = Inr (calculation + n)"
| "plus_assign calculation v = Inl TypeError"

fun average_array_loop ::
  "callback \<Rightarrow> jsval \<Rightarrow> jsval list \<Rightarrow> nat \<Rightarrow> rat \<Rightarrow> nat \<Rightarrow> error + (rat \<times> nat)" where
  "average_array_loop callback buf [] i calculation count = Inr (calculation, count)"
| "average_array_loop callback buf (val # rest) i calculation count =
     (let addition = callback val (JNum (of_nat i)) buf
      in if typeof addition = ''number'' \<or> typeof addition = ''bigint'' then
           (case plus_assign calculation addition of
              Inl err \<Rightarrow> Inl err
            | Inr calculation' \<Rightarrow>
                average_array_loop callback buf rest (i + 1) calculation' (count + 1))
         else average_array_loop callback buf rest (i + 1) calculation count)"

fun average_key_loop ::
  "callback \<Rightarrow> jsval \<Rightarrow> (string \<times> jsval) list \<Rightarrow> rat \<Rightarrow> nat \<Rightarrow> error + (rat \<times> nat)" where
  "average_key_loop callback buf [] calculation count = Inr (calculation, count)"
| "average_key_loop callback buf ((key, v) # rest) calculation count =
     (let addition = callback (JStr key) v buf
      in if typeof addition = ''number'' \<or> typeof addition = ''bigint'' then
           (case plus_assign calculation addition of
              Inl err \<Rightarrow> Inl err
            | Inr calculation' \<Rightarrow> average_key_loop callback buf rest calculation' (count + 1))
         else average_key_loop callback buf rest calculation count)"

text \<open>
  The method ends with \<^verbatim>\<open>return average / count\<close>: the dividend is the name
  \<^verbatim>\<open>average\<close>, not the accumulated \<^verbatim>\<open>calculation\<close>. The name is bound neither in the
  method (whose names are \<^verbatim>\<open>callback\<close>, \<^verbatim>\<open>calculation\<close>, \<^verbatim>\<open>count\<close>), nor in the
  module (which declares its two classes), nor by the host; evaluating it throws a
  \<^verbatim>\<open>ReferenceError\<close> before any division takes place.
\<close>

definition average :: "callback \<Rightarrow> ObjockeyObject \<Rightarrow> ret \<times> ObjockeyObject" where
  "average callback this =
     (case
        (if isArray this then
           average_array_loop callback (internal this) (for_of (internal this)) 0 0 0
         else if isObject this then
           average_key_loop callback (internal this) (own_properties (internal this)) 0 0
         else Inr (0, 0))
      of
        Inl err \<Rightarrow> (Throws err, this)
      | Inr (calculation, count) \<Rightarrow> (Throws ReferenceError, this))"

fun median_array_loop :: "callback \<Rightarrow> jsval \<Rightarrow> jsval list \<Rightarrow> nat \<Rightarrow> jsval list \<Rightarrow> jsval list" where
  "median_array_loop callback buf [] i matched = matched"
| "median_array_loop callback buf (val # rest) i matched =
     (let num = callback val (JNum (of_nat i)) buf
      in median_array_loop callback buf rest (i + 1)
           (if typeof num = ''number'' \<or> typeof num = ''bigint'' then matched @ [num] else matched))"

fun median_key_loop :: "callback \<Rightarrow> jsval \<Rightarrow> (string \<times> jsval) list \<Rightarrow> jsval list \<Rightarrow> jsval list" where
  "median_key_loop callback buf [] matched = matched"
| "median_key_loop callback buf ((key, v) # rest) matched =
     (let num = callback (JStr key) v buf
      in median_key_loop callback buf rest
           (if typeof num = ''number'' \<or> typeof num = ''bigint'' then matched @ [num] else matched))"

text \<open>
  \<^verbatim>\<open>matched.sort((a, b) => a - b)\<close> on a list of numbers and bigints. With fewer than
  two elements the comparison is never called. Otherwise every element is compared with
  another one, and a comparison with a bigint throws a \<^verbatim>\<open>TypeError\<close> (the difference
  of a bigint and a number does, and so does the conversion of a difference of bigints
  to a number); numbers come out in ascending order.
\<close>

fun number_of :: "jsval \<Rightarrow> rat" where
  "number_of (JNum n) = n"
| "number_of v = 0"

definition sort_ascending :: "jsval list \<Rightarrow> error + jsval list" where
  "sort_ascending matched =
     (if length matched \<ge> 2 \<and> list_ex (\<lambda>v. typeof v = ''bigint'') matched then Inl TypeError
      else Inr (sort_key number_of matched))"

text \<open>
  \<^verbatim>\<open>xs[k]\<close> for a number \<open>k\<close>: the element when \<open>k\<close> is an integer position inside the
  array, \<^verbatim>\<open>undefined\<close> otherwise. The division \<^verbatim>\<open>matched.length / 2\<close> is the division of
  numbers, not an integer division.
\<close>

definition element_at :: "jsval list \<Rightarrow> rat \<Rightarrow> jsval" where
  "element_at xs k =
     (if 0 \<le> k \<and> of_int \<lfloor>k\<rfloor> = k \<and> nat \<lfloor>k\<rfloor> < length xs then xs ! nat \<lfloor>k\<rfloor> else JUndefined)"

text \<open>The second loop is not an \<^verbatim>\<open>else\<close> branch: an array is also an object and is read twice.\<close>

definition median :: "callback \<Rightarrow> ObjockeyObject \<Rightarrow> ret \<times> ObjockeyObject" where
  "median callback this =
     (let matched1 =
            (if isArray this then
               median_array_loop callback (internal this) (for_of (internal this)) 0 []
             else []);
          matched2 =
            (if isObject this then
               median_key_loop callback (internal this) (own_properties (internal this)) matched1
             else matched1)
      in (case sort_ascending matched2 of
            Inl err \<Rightarrow> (Throws err, this)
          | Inr matched \<Rightarrow>
              (if length matched mod 2 = 0 then
                 (Returns (JArr [element_at matched (of_nat (length matched) / 2),
                                 element_at matched (of_nat (length matched) / 2 + 1)]), this)
               else
                 (Returns (JArr [element_at matched (of_nat (length matched) / 2)]), this))))"

subsection \<open>Filtering and mapping\<close>




fun condenseMap_array_loop :: "callback \<Rightarrow> jsval \<Rightarrow> jsval list \<Rightarrow> nat \<Rightarrow> jsval list \<Rightarrow> jsval list" where
  "condenseMap_array_loop callback buf [] i newData = newData"
| "condenseMap_array_loop callback buf (val # rest) i newData =
     (let data = callback val (JNum (of_nat i)) buf
      in condenseMap_array_loop callback buf rest (i + 1)
           (if data \<noteq> JUndefined then newData @ [data] else newData))"

definition merge_message :: "jsval \<Rightarrow> string" where
  "merge_message data =
     ''Cannot map a value of type '' @ [CHR 0x0A] @ replicate 24 (CHR '' '') @ typeof data
     @ '' to an internal buffer of type object.''"

fun condenseMap_key_loop ::
  "json_parser \<Rightarrow> callback \<Rightarrow> jsval \<Rightarrow> (string \<times> jsval) list \<Rightarrow> (string \<times> jsval) list
   \<Rightarrow> error + (string \<times> jsval) list" where
  "condenseMap_key_loop parse callback buf [] newData = Inr newData"
| "condenseMap_key_loop parse callback buf ((key, v) # rest) newData =
     (let data = callback (JStr key) v buf
      in if data \<noteq> JUndefined then
           (case parse data of
              Inl err \<Rightarrow> Inl err
            | Inr parsed \<Rightarrow>
                if \<not> Array_isArray data then
                  condenseMap_key_loop parse callback buf rest
                    (spread_into (spread_into [] (JObj newData)) data)
                else Inl (ObjockeyError (merge_message data)))
         else condenseMap_key_loop parse callback buf rest newData)"

definition condenseMap :: "json_parser \<Rightarrow> callback \<Rightarrow> ObjockeyObject \<Rightarrow> ret \<times> ObjockeyObject" where
  "condenseMap parse callback this =
     (if isArray this then
        (Returns (JArr (condenseMap_array_loop callback (internal this) (for_of (internal this)) 0 [])),
         this)
      else if isObject this then
        (case condenseMap_key_loop parse callback (internal this) (own_properties (internal this)) [] of
           Inl err \<Rightarrow> (Throws err, this)
         | Inr newData \<Rightarrow> (Returns (JObj newData), this))
      else (Returns (JObj []), this))"

text \<open>
  In the array loop of \<^verbatim>\<open>map\<close> the callback's third argument is the new array as built
  so far, and \<^verbatim>\<open>callback(...) || undefined\<close> is what is appended. The second branch
  tests \<^verbatim>\<open>this.isObject\<close>, the method itself and not a call of it: a function is truthy,
  so every buffer that is not an array is read by that loop.
\<close>

fun map_array_loop :: "callback \<Rightarrow> jsval list \<Rightarrow> nat \<Rightarrow> jsval list \<Rightarrow> jsval list" where
  "map_array_loop callback [] i newData = newData"
| "map_array_loop callback (val # rest) i newData =
     (let r = callback val (JNum (of_nat i)) (JArr newData)
      in map_array_loop callback rest (i + 1) (newData @ [if truthy r then r else JUndefined]))"

fun map_key_loop ::
  "callback \<Rightarrow> jsval \<Rightarrow> (string \<times> jsval) list \<Rightarrow> (string \<times> jsval) list \<Rightarrow> (string \<times> jsval) list" where
  "map_key_loop callback buf [] newData = newData"
| "map_key_loop callback buf ((key, v) # rest) newData =
     (let r = callback (JStr key) v buf;
          data = (if truthy r then r else JObj [(key, JNull)])
      in map_key_loop callback buf rest (spread_into (spread_into [] (JObj newData)) data))"

definition map_method :: "callback \<Rightarrow> ObjockeyObject \<Rightarrow> ret \<times> ObjockeyObject" where
  "map_method callback this =
     (if isArray this then
        (Returns (JArr (map_array_loop callback (for_of (internal this)) 0 [])), this)
      else
        (Returns (JObj (map_key_loop callback (internal this) (own_properties (internal this)) [])),
         this))"

subsection \<open>Shapes of values\<close>

text \<open>A sequence or a mapping; and the scalars of JSON.\<close>

fun is_container :: "jsval \<Rightarrow> bool" where
  "is_container (JArr xs) = True"
| "is_container (JObj ms) = True"
| "is_container v = False"

fun is_scalar :: "jsval \<Rightarrow> bool" where
  "is_scalar JNull = True"
| "is_scalar (JBool b) = True"
| "is_scalar (JNum n) = True"
| "is_scalar (JStr s) = True"
| "is_scalar v = False"

section \<open>Termination of the tokenizer\<close>

lemma lex_string_shorter:
  "lex_string cs acc = Some (s, rest) \<Longrightarrow> length rest < length cs"
proof (induction cs acc rule: lex_string.induct)
  case (1 acc)
  then show ?case by simp
next
  case (2 c cs acc)
  show ?case
  proof (cases "c = CHR 0x22")
    case True
    with 2(4) show ?thesis by simp
  next
    case nq: False
    show ?thesis
    proof (cases "c = CHR 0x5C")
      case bs: True
      show ?thesis
      proof (cases cs)
        case Nil
        with 2(4) nq bs show ?thesis by simp
      next
        case (Cons e cs')
        show ?thesis
        proof (cases "e = CHR ''u''")
          case u: True
          with 2(4) nq bs Cons obtain h1 h2 h3 h4 cs'' where
            cs': "cs' = h1 # h2 # h3 # h4 # cs''"
            and ok: "is_hex h1 \<and> is_hex h2 \<and> is_hex h3 \<and> is_hex h4 \<and> hex_val h1 = 0 \<and> hex_val h2 = 0"
            and r: "lex_string cs'' (char_of (16 * hex_val h3 + hex_val h4) # acc) = Some (s, rest)"
            by (simp split: list.splits if_splits)
          from 2(1) [OF nq bs Cons u cs' _ _ _ ] ok r have "length rest < length cs''"
            by simp
          with Cons cs' show ?thesis by simp
        next
          case nu: False
          with 2(4) nq bs Cons obtain ch where
            ue: "unescape e = Some ch" and r: "lex_string cs' (ch # acc) = Some (s, rest)"
            by (simp split: option.splits)
          from 2(2) [OF nq bs Cons nu ue] r have "length rest < length cs'" by simp
          with Cons show ?thesis by simp
        qed
      qed
    next
      case nbs: False
      with 2(4) nq have nc: "\<not> (of_char c :: nat) < 32" and r: "lex_string cs (c # acc) = Some (s, rest)"
        by (simp_all split: if_splits)
      from 2(3) [OF nq nbs nc] r show ?thesis by simp
    qed
  qed
qed

termination tokenize
proof (relation "measure length", goal_cases)
  case 1
  show ?case by simp
next
  case (9 c cs x2 x y)
  then have "lex_string cs [] = Some (x, y)" by simp
  then show ?case using lex_string_shorter by fastforce
next
  case (10 c cs x2)
  show ?case using length_dropWhile_le [of is_numchar cs] by simp
next
  case (2 c cs) show ?case by simp
next
  case (3 c cs) show ?case by simp
next
  case (4 c cs) show ?case by simp
next
  case (5 c cs) show ?case by simp
next
  case (6 c cs) show ?case by simp
next
  case (7 c cs) show ?case by simp
next
  case (8 c cs) show ?case by simp
next
  case (11 c cs) show ?case by simp
next
  case (12 c cs) show ?case by simp
next
  case (13 c cs) show ?case by simp
qed

declare tokenize.simps [simp del]

section \<open>Properties of the object operations\<close>

lemma obj_has_iff: "obj_has ms k = (k \<in> fst ` set ms)"
  by (induction ms) auto

lemma obj_get_absent: "\<not> obj_has ms k \<Longrightarrow> obj_get ms k = JUndefined"
  by (induction ms) auto

lemma obj_get_update:
  "obj_get (obj_update k v ms) k' = (if k' = k \<and> obj_has ms k then v else obj_get ms k')"
  by (induction ms) auto

lemma obj_has_update: "obj_has (obj_update k v ms) k' = obj_has ms k'"
  by (induction ms) (auto split: if_splits)

lemma obj_get_insert_index:
  "\<not> obj_has ms k \<Longrightarrow> obj_get (obj_insert_index k v ms) k' = (if k' = k then v else obj_get ms k')"
  by (induction ms) auto

lemma obj_has_insert_index: "obj_has (obj_insert_index k v ms) k' = (k' = k \<or> obj_has ms k')"
  by (induction ms) (auto split: if_splits)

lemma obj_get_append:
  "obj_get (ms @ [(k, v)]) k' =
     (if obj_has ms k' then obj_get ms k' else if k' = k then v else JUndefined)"
  by (induction ms) auto

lemma obj_has_append: "obj_has (ms @ [(k, v)]) k' = (k' = k \<or> obj_has ms k')"
  by (induction ms) auto

lemma obj_get_put: "obj_get (obj_put k v ms) k' = (if k' = k then v else obj_get ms k')"
  by (simp add: obj_put_def obj_get_update obj_get_insert_index obj_get_append obj_get_absent)

lemma obj_has_put: "obj_has (obj_put k v ms) k' = (k' = k \<or> obj_has ms k')"
  by (auto simp: obj_put_def obj_has_update obj_has_insert_index obj_has_append)

lemma obj_get_fold_put:
  "distinct (map fst ps) \<Longrightarrow>
   obj_get (foldl (\<lambda>acc (k, v). obj_put k v acc) acc ps) k' =
     (if obj_has ps k' then obj_get ps k' else obj_get acc k')"
proof (induction ps arbitrary: acc)
  case Nil
  then show ?case by simp
next
  case (Cons p ps)
  obtain k v where p: "p = (k, v)" by (cases p)
  from Cons.prems p have d: "distinct (map fst ps)" and nk: "\<not> obj_has ps k"
    by (simp_all add: obj_has_iff)
  show ?case
    using Cons.IH [OF d, of "obj_put k v acc"] nk p
    by (auto simp: obj_get_put)
qed

lemma obj_has_fold_put:
  "obj_has (foldl (\<lambda>acc (k, v). obj_put k v acc) acc ps) k' = (obj_has ps k' \<or> obj_has acc k')"
proof (induction ps arbitrary: acc)
  case Nil
  then show ?case by simp
next
  case (Cons p ps)
  obtain k v where p: "p = (k, v)" by (cases p)
  show ?case
    using Cons.IH [of "obj_put k v acc"] p
    by (auto simp: obj_has_put)
qed

lemma obj_get_merge:
  assumes "distinct (map fst ms)" and "distinct (map fst bs)"
  shows "obj_get (spread_into (spread_into [] (JObj ms)) (JObj bs)) k =
           (if obj_has bs k then obj_get bs k else obj_get ms k)"
  using assms by (simp add: spread_into_def obj_get_fold_put obj_get_absent)

lemma obj_has_merge:
  "obj_has (spread_into (spread_into [] (JObj ms)) (JObj bs)) k = (obj_has ms k \<or> obj_has bs k)"
  by (auto simp: spread_into_def obj_has_fold_put)

section \<open>Properties of the loops\<close>


section \<open>Construction\<close>

lemma constructor_structured:
  "Array_isArray source \<or> instanceof_Object source \<Longrightarrow>
   constructor parse source = Inr \<lparr>print_output_using = ConsoleLog, internal = JUndefined\<rparr>"
  by (simp add: constructor_def)

lemma constructor_empty_text:
  "constructor parse (JStr []) = Inr \<lparr>print_output_using = ConsoleLog, internal = JUndefined\<rparr>"
  by (simp add: constructor_def)


lemma constructor_malformed_text:
  "constructor JSON_parse (JStr ''not json'') = Inl SyntaxError"
  by code_simp

lemma constructor_other_failure:
  "constructor JSON_parse (JSymbol n) =
     Inr \<lparr>print_output_using = ConsoleLog, internal = JUndefined\<rparr>"
  by (simp add: constructor_def JSON_parse_def)

text \<open>
  Claim C1 (construction contract): a source that is already a sequence or a mapping
  is to become the payload. The constructor returns before it assigns anything in that
  case: built from the sequence \<^verbatim>\<open>[1, 2, 3]\<close>, the object has no payload.
\<close>

theorem constructor_structured_source:
  "constructor JSON_parse (JArr [JNum 1, JNum 2, JNum 3]) =
     Inr \<lparr>print_output_using = ConsoleLog, internal = JUndefined\<rparr>"
  by (simp add: constructor_def)

section \<open>average\<close>

lemma average_never_returns: "\<exists>err. average callback this = (Throws err, this)"
  by (simp add: average_def split: sum.splits prod.splits)

text \<open>
  Claim C2 (average): the sum of the numeric selector results divided by their count
  is to be returned. On the payload \<^verbatim>\<open>[1, 2, 3]\<close> with the identity selector the call
  throws a \<^verbatim>\<open>ReferenceError\<close> instead of returning 2.
\<close>

theorem average_throws:
  "average (\<lambda>val i buf. val) \<lparr>print_output_using = ConsoleLog, internal = JArr [JNum 1, JNum 2, JNum 3]\<rparr> =
     (Throws ReferenceError,
      \<lparr>print_output_using = ConsoleLog, internal = JArr [JNum 1, JNum 2, JNum 3]\<rparr>)"
  by code_simp

section \<open>The shape of the payload\<close>








section \<open>median\<close>

text \<open>
  Claim C4 (median): for an odd count, the element at position \<open>count / 2\<close> under
  integer division is to be returned. The position is computed by the division of
  numbers: for the three results 1, 2, 3 it is 1.5, no element is there, and the call
  returns a one-element sequence holding \<^verbatim>\<open>undefined\<close> instead of 2.
\<close>

theorem median_odd_count:
  "median (\<lambda>val i buf. val) \<lparr>print_output_using = ConsoleLog, internal = JArr [JNum 1, JNum 2, JNum 3]\<rparr> =
     (Returns (JArr [JUndefined]),
      \<lparr>print_output_using = ConsoleLog, internal = JArr [JNum 1, JNum 2, JNum 3]\<rparr>)"
  by code_simp

lemma median_even_count:
  "median (\<lambda>val i buf. val)
     \<lparr>print_output_using = ConsoleLog, internal = JArr [JNum 4, JNum 2, JNum 3, JNum 1]\<rparr> =
     (Returns (JArr [JNum 3, JNum 4]),
      \<lparr>print_output_using = ConsoleLog, internal = JArr [JNum 4, JNum 2, JNum 3, JNum 1]\<rparr>)"
  by code_simp

section \<open>condenseMap\<close>

text \<open>
  Claim C5 (condenseMap on a mapping): a transform result that is a mapping is to be
  merged into the new mapping. Every result is first handed to \<^verbatim>\<open>JSON.parse\<close>, which
  converts a mapping to the text \<^verbatim>\<open>[object Object]\<close>: on the payload \<^verbatim>\<open>{a: 1}\<close> with a
  transform that returns \<^verbatim>\<open>{a: 2}\<close> the call throws a \<^verbatim>\<open>SyntaxError\<close>.
\<close>

theorem condenseMap_mapping_result:
  "condenseMap JSON_parse (\<lambda>key v buf. JObj [(''a'', JNum 2)])
     \<lparr>print_output_using = ConsoleLog, internal = JObj [(''a'', JNum 1)]\<rparr> =
     (Throws SyntaxError, \<lparr>print_output_using = ConsoleLog, internal = JObj [(''a'', JNum 1)]\<rparr>)"
  by code_simp

lemma condenseMap_number_result:
  "condenseMap JSON_parse (\<lambda>key v buf. JNum 5)
     \<lparr>print_output_using = ConsoleLog, internal = JObj [(''a'', JNum 1)]\<rparr> =
     (Returns (JObj []), \<lparr>print_output_using = ConsoleLog, internal = JObj [(''a'', JNum 1)]\<rparr>)"
  by code_simp

lemma condenseMap_sequence_result:
  "condenseMap JSON_parse (\<lambda>key v buf. JArr [JNum 1, JNum 2])
     \<lparr>print_output_using = ConsoleLog, internal = JObj [(''a'', JNum 1)]\<rparr> =
     (Throws SyntaxError, \<lparr>print_output_using = ConsoleLog, internal = JObj [(''a'', JNum 1)]\<rparr>)"
  by code_simp

lemma condenseMap_absent_result:
  "condenseMap JSON_parse (\<lambda>key v buf. JUndefined)
     \<lparr>print_output_using = ConsoleLog, internal = JObj [(''a'', JNum 1)]\<rparr> =
     (Returns (JObj []), \<lparr>print_output_using = ConsoleLog, internal = JObj [(''a'', JNum 1)]\<rparr>)"
  by code_simp

section \<open>findIndexes2D\<close>

lemma findIndexes2D_loop_mapping:
  "\<not> isArray this \<Longrightarrow> list_all (\<lambda>c. case c of Fn f \<Rightarrow> True | NotFn v \<Rightarrow> False) cbs \<Longrightarrow>
   findIndexes2D_loop this cbs indexes = Inr indexes"
  by (induction this cbs indexes rule: findIndexes2D_loop.induct) (simp_all add: Let_def)

text \<open>
  Claim C6 (findIndexes2D): for each predicate its match set is to be appended to the
  result, for a mapping as for a sequence. The loop over a mapping collects the match
  set and drops it: on the payload \<^verbatim>\<open>{a: 1}\<close> with one predicate that always holds, the
  result is the empty sequence instead of a sequence that holds the match set of the key.
\<close>

theorem findIndexes2D_mapping_payload:
  "findIndexes2D (Arr [Fn (\<lambda>key v buf. JBool True)])
     \<lparr>print_output_using = ConsoleLog, internal = JObj [(''a'', JNum 1)]\<rparr> =
     (Returns (JArr []), \<lparr>print_output_using = ConsoleLog, internal = JObj [(''a'', JNum 1)]\<rparr>)"
  by code_simp

lemma findAllIndexes_mapping_payload:
  "findAllIndexes (\<lambda>key v buf. JBool True)
     \<lparr>print_output_using = ConsoleLog, internal = JObj [(''a'', JNum 1)]\<rparr> =
     (Returns (JArr [JStr ''a'']), \<lparr>print_output_using = ConsoleLog, internal = JObj [(''a'', JNum 1)]\<rparr>)"
  by code_simp

section \<open>map\<close>

text \<open>
  Claim C7 (map on a sequence): a transform result that is not \<^verbatim>\<open>undefined\<close> is to
  appear unchanged at its position, falsy values included. The loop appends
  \<^verbatim>\<open>callback(...) || undefined\<close>: on the payload \<^verbatim>\<open>[1]\<close> with a transform that returns
  0, the result holds \<^verbatim>\<open>undefined\<close> instead of 0.
\<close>

theorem map_falsy_result:
  "map_method (\<lambda>val i buf. JNum 0) \<lparr>print_output_using = ConsoleLog, internal = JArr [JNum 1]\<rparr> =
     (Returns (JArr [JUndefined]), \<lparr>print_output_using = ConsoleLog, internal = JArr [JNum 1]\<rparr>)"
  by code_simp

lemma map_array_loop_length:
  "length (map_array_loop callback xs i newData) = length newData + length xs"
  by (induction xs arbitrary: i newData) (simp_all add: Let_def)

section \<open>push\<close>

text \<open>
  Claim C8 (push), as stated: a scalar addition whose type differs from that of a
  scalar payload fails. The test is guarded by the truthiness of the addition: pushing
  \<^verbatim>\<open>false\<close> onto the payload 5 does not fail, and changes nothing.
\<close>

theorem push_falsy_addition:
  "typeof (JBool False) \<noteq> typeof (JNum 5)
   \<and> push (JBool False) \<lparr>print_output_using = ConsoleLog, internal = JNum 5\<rparr> =
       (ReturnsThis, \<lparr>print_output_using = ConsoleLog, internal = JNum 5\<rparr>)"
  by code_simp

lemma push_mapping_onto_sequence:
  "push (JObj [(''a'', JNum 1)]) \<lparr>print_output_using = ConsoleLog, internal = JArr [JNum 1, JNum 2]\<rparr> =
     (ReturnsThis,
      \<lparr>print_output_using = ConsoleLog,
        internal = JObj [(''0'', JNum 1), (''1'', JNum 2), (''a'', JNum 1)]\<rparr>)"
  by code_simp

lemma push_sequences:
  "push (JArr ys) \<lparr>print_output_using = s, internal = JArr xs\<rparr> =
     (ReturnsThis, \<lparr>print_output_using = s, internal = JArr (xs @ ys)\<rparr>)"
  by (simp add: push_def isArray_def)

lemma push_mappings:
  "push (JObj bs) \<lparr>print_output_using = s, internal = JObj ms\<rparr> =
     (ReturnsThis,
      \<lparr>print_output_using = s, internal = JObj (spread_into (spread_into [] (JObj ms)) (JObj bs))\<rparr>)"
  by (simp add: push_def isArray_def)

lemma push_single_element:
  "\<not> Array_isArray addition \<Longrightarrow> \<not> (truthy addition \<and> typeof addition = ''object'') \<Longrightarrow>
   push addition \<lparr>print_output_using = s, internal = JArr xs\<rparr> =
     (ReturnsThis, \<lparr>print_output_using = s, internal = JArr (xs @ [addition])\<rparr>)"
  by (simp add: push_def isArray_def)

lemma push_scalars:
  "is_scalar payload \<Longrightarrow> is_scalar addition \<Longrightarrow>
   push addition \<lparr>print_output_using = s, internal = payload\<rparr> =
     (if truthy addition \<and> typeof addition \<noteq> typeof payload
      then (Throws (ObjockeyError (push_message addition payload)),
            \<lparr>print_output_using = s, internal = payload\<rparr>)
      else (ReturnsThis, \<lparr>print_output_using = s, internal = payload\<rparr>))"
  by (cases payload; cases addition) (simp_all add: push_def isArray_def)

text \<open>
  Claim C8, amended. Sequence payload and sequence addition: the concatenation, the
  existing elements first. Mapping payload and mapping addition: the merge, an incoming
  key overwriting an existing one. Sequence payload and an addition that is neither a
  sequence nor another object (a scalar, \<^verbatim>\<open>null\<close>, \<^verbatim>\<open>undefined\<close>): the addition appended
  as one element. Scalar payload and scalar addition: a failure when the addition is
  truthy and its type differs, and no change when the addition is falsy or of the same
  type. A push that does not fail returns the object itself.
\<close>

theorem push_contract:
  "push (JArr ys) \<lparr>print_output_using = s, internal = JArr xs\<rparr> =
     (ReturnsThis, \<lparr>print_output_using = s, internal = JArr (xs @ ys)\<rparr>)
   \<and> (distinct (map fst ms) \<and> distinct (map fst bs) \<longrightarrow>
        (\<exists>merged.
           push (JObj bs) \<lparr>print_output_using = s, internal = JObj ms\<rparr> =
             (ReturnsThis, \<lparr>print_output_using = s, internal = JObj merged\<rparr>)
           \<and> (\<forall>k. obj_has merged k = (obj_has ms k \<or> obj_has bs k))
           \<and> (\<forall>k. obj_get merged k = (if obj_has bs k then obj_get bs k else obj_get ms k))))
   \<and> (\<not> Array_isArray addition \<and> \<not> (truthy addition \<and> typeof addition = ''object'') \<longrightarrow>
        push addition \<lparr>print_output_using = s, internal = JArr xs\<rparr> =
          (ReturnsThis, \<lparr>print_output_using = s, internal = JArr (xs @ [addition])\<rparr>))
   \<and> (is_scalar payload \<and> is_scalar scalar \<longrightarrow>
        push scalar \<lparr>print_output_using = s, internal = payload\<rparr> =
          (if truthy scalar \<and> typeof scalar \<noteq> typeof payload
           then (Throws (ObjockeyError (push_message scalar payload)),
                 \<lparr>print_output_using = s, internal = payload\<rparr>)
           else (ReturnsThis, \<lparr>print_output_using = s, internal = payload\<rparr>)))"
proof (intro conjI impI)
  show "push (JArr ys) \<lparr>print_output_using = s, internal = JArr xs\<rparr> =
          (ReturnsThis, \<lparr>print_output_using = s, internal = JArr (xs @ ys)\<rparr>)"
    by (rule push_sequences)
next
  assume d: "distinct (map fst ms) \<and> distinct (map fst bs)"
  let ?merged = "spread_into (spread_into [] (JObj ms)) (JObj bs)"
  have "push (JObj bs) \<lparr>print_output_using = s, internal = JObj ms\<rparr> =
          (ReturnsThis, \<lparr>print_output_using = s, internal = JObj ?merged\<rparr>)"
    by (rule push_mappings)
  moreover have "\<forall>k. obj_has ?merged k = (obj_has ms k \<or> obj_has bs k)"
    by (simp add: obj_has_merge)
  moreover have "\<forall>k. obj_get ?merged k = (if obj_has bs k then obj_get bs k else obj_get ms k)"
    using d by (simp add: obj_get_merge)
  ultimately show "\<exists>merged.
      push (JObj bs) \<lparr>print_output_using = s, internal = JObj ms\<rparr> =
        (ReturnsThis, \<lparr>print_output_using = s, internal = JObj merged\<rparr>)
      \<and> (\<forall>k. obj_has merged k = (obj_has ms k \<or> obj_has bs k))
      \<and> (\<forall>k. obj_get merged k = (if obj_has bs k then obj_get bs k else obj_get ms k))"
    by blast
next
  assume "\<not> Array_isArray addition \<and> \<not> (truthy addition \<and> typeof addition = ''object'')"
  then show "push addition \<lparr>print_output_using = s, internal = JArr xs\<rparr> =
               (ReturnsThis, \<lparr>print_output_using = s, internal = JArr (xs @ [addition])\<rparr>)"
    using push_single_element by blast
next
  assume "is_scalar payload \<and> is_scalar scalar"
  then show "push scalar \<lparr>print_output_using = s, internal = payload\<rparr> =
          (if truthy scalar \<and> typeof scalar \<noteq> typeof payload
           then (Throws (ObjockeyError (push_message scalar payload)),
                 \<lparr>print_output_using = s, internal = payload\<rparr>)
           else (ReturnsThis, \<lparr>print_output_using = s, internal = payload\<rparr>))"
    using push_scalars by blast
qed

theorem push_contract_witness:
  "push (JArr [JNum 3, JNum 4]) \<lparr>print_output_using = ConsoleLog, internal = JArr [JNum 1, JNum 2]\<rparr> =
     (ReturnsThis, \<lparr>print_output_using = ConsoleLog, internal = JArr [JNum 1, JNum 2, JNum 3, JNum 4]\<rparr>)
   \<and> (\<exists>merged.
         push (JObj [(''a'', JNum 2)]) \<lparr>print_output_using = ConsoleLog, internal = JObj [(''a'', JNum 1)]\<rparr> =
           (ReturnsThis, \<lparr>print_output_using = ConsoleLog, internal = JObj merged\<rparr>)
         \<and> obj_get merged ''a'' = JNum 2)
   \<and> push (JNum 3) \<lparr>print_output_using = ConsoleLog, internal = JArr [JNum 1, JNum 2]\<rparr> =
       (ReturnsThis, \<lparr>print_output_using = ConsoleLog, internal = JArr [JNum 1, JNum 2, JNum 3]\<rparr>)
   \<and> push (JStr ''x'') \<lparr>print_output_using = ConsoleLog, internal = JNum 5\<rparr> =
       (Throws (ObjockeyError (push_message (JStr ''x'') (JNum 5))),
        \<lparr>print_output_using = ConsoleLog, internal = JNum 5\<rparr>)"
proof -
  note contract =
    push_contract [where ys = "[JNum 3, JNum 4]" and s = ConsoleLog and xs = "[JNum 1, JNum 2]"
      and ms = "[(''a'', JNum 1)]" and bs = "[(''a'', JNum 2)]" and addition = "JNum 3"
      and payload = "JNum 5" and scalar = "JStr ''x''"]
  have h1: "distinct (map fst [(''a'', JNum 1)]) \<and> distinct (map fst [(''a'', JNum 2)])"
    by simp
  have h2: "\<not> Array_isArray (JNum 3) \<and> \<not> (truthy (JNum 3) \<and> typeof (JNum 3) = ''object'')"
    by simp
  have h3: "is_scalar (JNum 5) \<and> is_scalar (JStr ''x'')"
    by simp
  from contract have c1:
    "push (JArr [JNum 3, JNum 4]) \<lparr>print_output_using = ConsoleLog, internal = JArr [JNum 1, JNum 2]\<rparr> =
       (ReturnsThis, \<lparr>print_output_using = ConsoleLog, internal = JArr ([JNum 1, JNum 2] @ [JNum 3, JNum 4])\<rparr>)"
    by (rule conjunct1)
  from contract h1 obtain merged where
    m: "push (JObj [(''a'', JNum 2)]) \<lparr>print_output_using = ConsoleLog, internal = JObj [(''a'', JNum 1)]\<rparr> =
          (ReturnsThis, \<lparr>print_output_using = ConsoleLog, internal = JObj merged\<rparr>)"
    and g: "\<forall>k. obj_get merged k =
              (if obj_has [(''a'', JNum 2)] k then obj_get [(''a'', JNum 2)] k
               else obj_get [(''a'', JNum 1)] k)"
    by blast
  from g have a: "obj_get merged ''a'' = JNum 2"
    by simp
  from contract h2 have c3:
    "push (JNum 3) \<lparr>print_output_using = ConsoleLog, internal = JArr [JNum 1, JNum 2]\<rparr> =
       (ReturnsThis, \<lparr>print_output_using = ConsoleLog, internal = JArr ([JNum 1, JNum 2] @ [JNum 3])\<rparr>)"
    by blast
  from contract h3 have c4:
    "push (JStr ''x'') \<lparr>print_output_using = ConsoleLog, internal = JNum 5\<rparr> =
       (if truthy (JStr ''x'') \<and> typeof (JStr ''x'') \<noteq> typeof (JNum 5)
        then (Throws (ObjockeyError (push_message (JStr ''x'') (JNum 5))),
              \<lparr>print_output_using = ConsoleLog, internal = JNum 5\<rparr>)
        else (ReturnsThis, \<lparr>print_output_using = ConsoleLog, internal = JNum 5\<rparr>))"
    by blast
  from c1 have d1:
    "push (JArr [JNum 3, JNum 4]) \<lparr>print_output_using = ConsoleLog, internal = JArr [JNum 1, JNum 2]\<rparr> =
       (ReturnsThis, \<lparr>print_output_using = ConsoleLog, internal = JArr [JNum 1, JNum 2, JNum 3, JNum 4]\<rparr>)"
    by simp
  from c3 have d3:
    "push (JNum 3) \<lparr>print_output_using = ConsoleLog, internal = JArr [JNum 1, JNum 2]\<rparr> =
       (ReturnsThis, \<lparr>print_output_using = ConsoleLog, internal = JArr [JNum 1, JNum 2, JNum 3]\<rparr>)"
    by simp
  from c4 have d4:
    "push (JStr ''x'') \<lparr>print_output_using = ConsoleLog, internal = JNum 5\<rparr> =
       (Throws (ObjockeyError (push_message (JStr ''x'') (JNum 5))),
        \<lparr>print_output_using = ConsoleLog, internal = JNum 5\<rparr>)"
    by simp
  from m a have d2:
    "\<exists>merged.
       push (JObj [(''a'', JNum 2)]) \<lparr>print_output_using = ConsoleLog, internal = JObj [(''a'', JNum 1)]\<rparr> =
         (ReturnsThis, \<lparr>print_output_using = ConsoleLog, internal = JObj merged\<rparr>)
       \<and> obj_get merged ''a'' = JNum 2"
    by blast
  from d1 d2 d3 d4 show ?thesis
    by (intro conjI)
qed

section \<open>filter, map and condenseMap leave the payload alone\<close>















section \<open>set\<close>

text \<open>
  Claim C10 (atomicity of set): whenever \<^verbatim>\<open>set\<close> throws, the object is afterwards as
  it was before the call.
\<close>

theorem set_atomic:
  "fst (set_method parse buffer this) = Throws err \<Longrightarrow> snd (set_method parse buffer this) = this"
  by (auto simp: set_method_def split: if_splits sum.splits)

theorem set_atomic_witness:
  "fst (set_method JSON_parse (JStr ''not json'')
          \<lparr>print_output_using = ConsoleLog, internal = JArr [JNum 1]\<rparr>)
     = Throws SyntaxError
   \<and> snd (set_method JSON_parse (JStr ''not json'')
            \<lparr>print_output_using = ConsoleLog, internal = JArr [JNum 1]\<rparr>)
     = \<lparr>print_output_using = ConsoleLog, internal = JArr [JNum 1]\<rparr>"
proof -
  have h: "fst (set_method JSON_parse (JStr ''not json'')
                  \<lparr>print_output_using = ConsoleLog, internal = JArr [JNum 1]\<rparr>)
             = Throws SyntaxError"
    by code_simp
  show ?thesis
    using h set_atomic [OF h] by simp
qed

lemma set_rejects:
  "typeof buffer \<noteq> ''string'' \<Longrightarrow> \<not> is_container buffer \<Longrightarrow>
   \<exists>err. set_method parse buffer this = (Throws err, this)"
  by (cases buffer) (simp_all add: set_method_def)

end
